theory Spec2Isabelle
  imports Main "HOL-Library.Product_Lexorder"
begin

section \<open>Strings as Python sees them\<close>

text \<open>
  The program under study is \<^verbatim>\<open>bin/youtube_downloader_V3.4.py\<close>. Its strings are
  Python \<^verbatim>\<open>str\<close> values; they are modelled by \<^typ>\<open>string\<close>, one \<^typ>\<open>char\<close> per
  code point, which covers the code points below 256. On that range
  \<^verbatim>\<open>str.lower\<close> moves \<^verbatim>\<open>A-Z\<close> and the Latin-1 capitals (192 to 222, except
  the multiplication sign 215) up by 32, and \<^verbatim>\<open>str.strip\<close> removes the code
  points 9 to 13, 28 to 32, 133 and 160.
\<close>

definition lower_char :: "char \<Rightarrow> char" where
  "lower_char c =
     (let n = (of_char c :: nat)
      in if (65 \<le> n \<and> n \<le> 90) \<or> (192 \<le> n \<and> n \<le> 222 \<and> n \<noteq> 215)
         then char_of (n + 32) else c)"

definition lower :: "string \<Rightarrow> string" where
  "lower s = map lower_char s"

definition is_space :: "char \<Rightarrow> bool" where
  "is_space c =
     (let n = (of_char c :: nat)
      in (9 \<le> n \<and> n \<le> 13) \<or> (28 \<le> n \<and> n \<le> 32) \<or> n = 133 \<or> n = 160)"

definition lstrip_with :: "(char \<Rightarrow> bool) \<Rightarrow> string \<Rightarrow> string" where
  "lstrip_with p s = dropWhile p s"

definition rstrip_with :: "(char \<Rightarrow> bool) \<Rightarrow> string \<Rightarrow> string" where
  "rstrip_with p s = rev (dropWhile p (rev s))"

text \<open>\<^verbatim>\<open>s.strip()\<close> and \<^verbatim>\<open>s.rstrip(".")\<close>.\<close>

definition strip :: "string \<Rightarrow> string" where
  "strip s = rstrip_with is_space (lstrip_with is_space s)"

definition rstrip_dots :: "string \<Rightarrow> string" where
  "rstrip_dots s = rstrip_with (\<lambda>c. c = CHR ''.'') s"

text \<open>\<^verbatim>\<open>s.startswith(p)\<close> and \<^verbatim>\<open>needle in s\<close>.\<close>

definition startswith :: "string \<Rightarrow> string \<Rightarrow> bool" where
  "startswith s p = (take (length p) s = p)"

fun contains :: "string \<Rightarrow> string \<Rightarrow> bool" where
  "contains [] needle = (needle = [])"
| "contains (c # cs) needle =
     (if startswith (c # cs) needle then True else contains cs needle)"

section \<open>Sanitizer\<close>

text \<open>
  \<^verbatim>\<open>INVALID_FS = r'[\\/*?:"<>|]'\<close>: backslash (92), slash, star, question mark,
  colon, double quote (34), angle brackets and the bar.
\<close>

definition invalid_fs :: "char \<Rightarrow> bool" where
  "invalid_fs c =
     (c = CHR 0x5C \<or> c = CHR ''/'' \<or> c = CHR ''*'' \<or> c = CHR ''?'' \<or> c = CHR '':''
      \<or> c = CHR 0x22 \<or> c = CHR ''<'' \<or> c = CHR ''>'' \<or> c = CHR ''|'')"

text \<open>\<^verbatim>\<open>re.sub(INVALID_FS, "_", name)\<close>: every character of the class becomes an underscore.\<close>

definition sub_invalid :: "string \<Rightarrow> string" where
  "sub_invalid name = map (\<lambda>c. if invalid_fs c then CHR ''_'' else c) name"

text \<open>
  \<^verbatim>\<open>(re.sub(INVALID_FS, "_", name).strip().rstrip("."))[:100] or "output"\<close>
\<close>

definition sanitize_core :: "string \<Rightarrow> string" where
  "sanitize_core name = take 100 (rstrip_dots (strip (sub_invalid name)))"

definition sanitize :: "string \<Rightarrow> string" where
  "sanitize name = (if sanitize_core name = [] then ''output'' else sanitize_core name)"

section \<open>Scorer\<close>

text \<open>
  A result record of the provider is a Python dict; the program reads the keys below.
  A field is \<open>None\<close> when the key is absent or holds Python's \<^verbatim>\<open>None\<close>: the program
  reads these fields through \<^verbatim>\<open>e.get(key) or default\<close>, which does not tell the two
  apart. The key \<^verbatim>\<open>url\<close> is read as \<^verbatim>\<open>e["url"]\<close>, where an absent key and a
  \<^verbatim>\<open>None\<close> fail differently, so it is a \<open>field\<close>. The key \<^verbatim>\<open>duration\<close> is handed
  to \<^verbatim>\<open>sec_to_hms\<close>: it is a number of seconds, or falsy (absent, \<^verbatim>\<open>None\<close>, or an
  empty value), or a truthy value that is not a number, kept with the name of its type.
  Durations are integers here, as in the data model of the specification.
\<close>

datatype 'a field = Absent | Null | Val 'a

datatype duration = NoDuration | Seconds int | OtherValue string

record entry =
  e_title :: "string option"
  e_type :: "string option"
  e_playlist_count :: "int option"
  e_view_count :: "int option"
  e_url :: "string field"
  e_duration :: duration

text \<open>
  \<^verbatim>\<open>d.get(key) or default\<close> for a string (the empty string is falsy as well) and
  \<^verbatim>\<open>d.get(key) or 0\<close> for an integer.
\<close>

definition or_default :: "string option \<Rightarrow> string \<Rightarrow> string" where
  "or_default v d = (case v of None \<Rightarrow> d | Some s \<Rightarrow> if s = [] then d else s)"

definition or_zero :: "int option \<Rightarrow> int" where
  "or_zero v = (case v of None \<Rightarrow> 0 | Some n \<Rightarrow> n)"

text \<open>
  The pattern \<^verbatim>\<open>r".+ - .+\(\d{4}\)"\<close> is a sequence of atoms, some of them repeated
  one or more times. \<open>match_here\<close> decides whether some prefix of the text matches the
  sequence (backtracking over the repetitions), \<open>re_search\<close> tries every start
  position, as \<^verbatim>\<open>re.search\<close> does. The dot matches every character but the line feed.
\<close>

datatype atom = Any | Ch char | Digit

fun atom_ok :: "atom \<Rightarrow> char \<Rightarrow> bool" where
  "atom_ok Any c = (c \<noteq> CHR 0x0A)"
| "atom_ok (Ch d) c = (c = d)"
| "atom_ok Digit c = (let n = (of_char c :: nat) in 48 \<le> n \<and> n \<le> 57)"

fun match_here :: "(atom \<times> bool) list \<Rightarrow> string \<Rightarrow> bool" where
  "match_here [] s = True"
| "match_here ((a, rep) # p) [] = False"
| "match_here ((a, rep) # p) (c # cs) =
     (if atom_ok a c
      then (if match_here p cs then True
            else if rep then match_here ((a, rep) # p) cs else False)
      else False)"

fun re_search :: "(atom \<times> bool) list \<Rightarrow> string \<Rightarrow> bool" where
  "re_search p [] = match_here p []"
| "re_search p (c # cs) = (if match_here p (c # cs) then True else re_search p cs)"

definition struct_pattern :: "(atom \<times> bool) list" where
  "struct_pattern =
     [(Any, True), (Ch CHR '' '', False), (Ch CHR ''-'', False), (Ch CHR '' '', False),
      (Any, True), (Ch CHR ''('', False),
      (Digit, False), (Digit, False), (Digit, False), (Digit, False),
      (Ch CHR '')'', False)]"

datatype kind = Playlist | Video

text \<open>\<^verbatim>\<open>score_entry(entry, boost_full)\<close> returns the score and the kind.\<close>

definition score_entry :: "entry \<Rightarrow> bool \<Rightarrow> int \<times> kind" where
  "score_entry e boost_full =
     (let title = lower (or_default (e_title e) []);
          bonus_struct = (if re_search struct_pattern title then 300 else 0);
          bonus_full = (if boost_full \<and> contains title ''full album'' then 400
                        else if contains title ''full album'' then 100 else 0);
          bonus_off = (if contains title ''official'' then 50 else 0);
          malus = (if contains title ''review'' \<or> contains title ''cover'' then - 100 else 0)
      in if e_type e = Some ''playlist''
         then (or_zero (e_playlist_count e) + bonus_struct + bonus_full + bonus_off + malus,
               Playlist)
         else (or_zero (e_view_count e) div 100000 + bonus_struct + bonus_full + bonus_off
                 + malus, Video))"

section \<open>Exceptions and outcomes\<close>

text \<open>
  A Python exception is its class and its message (\<^verbatim>\<open>str(e)\<close>). \<open>PlainException\<close> is
  \<^verbatim>\<open>Exception\<close> itself, raised by \<^verbatim>\<open>search_best\<close>; \<open>OtherError\<close> stands for every
  other subclass of \<^verbatim>\<open>Exception\<close> a library call may raise.
\<close>

datatype exn_class =
  DownloadError | KeyError | AttributeError | TypeError | OverflowError | OSError
  | PlainException | OtherError

datatype exn = Exn exn_class string

text \<open>What running a piece of the program does: it never returns, it raises, or it returns.\<close>

datatype 'a run = Hangs | Raises exn | Returns 'a

text \<open>
  The messages of the exceptions the interpreter raises in this program:
  \<^verbatim>\<open>e["url"]\<close> on a dict without the key, a method call on \<^verbatim>\<open>None\<close>, and a
  \<^verbatim>\<open>for\<close> over \<^verbatim>\<open>None\<close>.
\<close>

definition quoted :: "string \<Rightarrow> string" where
  "quoted s = CHR 0x27 # s @ [CHR 0x27]"

definition key_error :: "string \<Rightarrow> exn" where
  "key_error k = Exn KeyError (quoted k)"

definition none_has_no :: "string \<Rightarrow> exn" where
  "none_has_no attr =
     Exn AttributeError (quoted ''NoneType'' @ '' object has no attribute '' @ quoted attr)"

definition none_not_iterable :: exn where
  "none_not_iterable = Exn TypeError (quoted ''NoneType'' @ '' object is not iterable'')"

section \<open>Durations\<close>

text \<open>Decimal numerals, as \<^verbatim>\<open>%d\<close> prints them, and zero padding to a width.\<close>

definition digit_char :: "nat \<Rightarrow> char" where
  "digit_char d = ''0123456789'' ! d"

fun dec_nat :: "nat \<Rightarrow> string" where
  "dec_nat n =
     (if n < 10 then [digit_char n] else dec_nat (n div 10) @ [digit_char (n mod 10)])"

definition dec_int :: "int \<Rightarrow> string" where
  "dec_int n = (if n < 0 then CHR ''-'' # dec_nat (nat (- n)) else dec_nat (nat n))"

definition zfill :: "nat \<Rightarrow> string \<Rightarrow> string" where
  "zfill w s = replicate (w - length s) CHR ''0'' @ s"

text \<open>
  \<^verbatim>\<open>str(datetime.timedelta(seconds=sec))\<close> for an integer: the value is normalised to
  days and seconds of the day (floor division), and printed as \<^verbatim>\<open>H:MM:SS\<close>, after
  \<^verbatim>\<open>N day(s), \<close> when the days are not zero.
\<close>

definition str_timedelta :: "int \<Rightarrow> int \<Rightarrow> string" where
  "str_timedelta days secs =
     (let hms = dec_int (secs div 3600) @ '':'' @ zfill 2 (dec_int (secs div 60 mod 60))
                  @ '':'' @ zfill 2 (dec_int (secs mod 60))
      in if days = 0 then hms
         else dec_int days @ '' day'' @ (if days = 1 \<or> days = - 1 then [] else ''s'')
                @ '', '' @ hms)"

text \<open>
  The constructor refuses a value that is not a number, \<^verbatim>\<open>None\<close> included
  (\<^verbatim>\<open>TypeError\<close>), and a number of days of magnitude above 999999999
  (\<^verbatim>\<open>OverflowError\<close>, with another message when the days do not fit a C \<^verbatim>\<open>int\<close>).
\<close>

definition timedelta_seconds :: "duration \<Rightarrow> exn + string" where
  "timedelta_seconds v =
     (case v of
        NoDuration \<Rightarrow>
          Inl (Exn TypeError ''unsupported type for timedelta seconds component: NoneType'')
      | OtherValue ty \<Rightarrow>
          Inl (Exn TypeError (''unsupported type for timedelta seconds component: '' @ ty))
      | Seconds sec \<Rightarrow>
          (let days = sec div 86400 in
           if days < - 2147483648 \<or> 2147483647 < days
           then Inl (Exn OverflowError ''Python int too large to convert to C int'')
           else if days < - 999999999 \<or> 999999999 < days
           then Inl (Exn OverflowError
                       (''days='' @ dec_int days @ ''; must have magnitude <= 999999999''))
           else Inr (str_timedelta days (sec mod 86400))))"

text \<open>
  \<^verbatim>\<open>sec_to_hms(sec)\<close>:
  \<^verbatim>\<open>return "?" if not sec else str(datetime.timedelta(seconds=sec))\<close>.
\<close>

definition sec_to_hms :: "duration \<Rightarrow> exn + string" where
  "sec_to_hms sec =
     (if sec = NoDuration \<or> sec = Seconds 0 then Inr ''?'' else timedelta_seconds sec)"

section \<open>Search session\<close>

text \<open>
  The descriptor \<^verbatim>\<open>extract_info\<close> returns: a dict with the keys \<^verbatim>\<open>_type\<close>,
  \<^verbatim>\<open>entries\<close> and \<^verbatim>\<open>title\<close>. An element of \<^verbatim>\<open>entries\<close> is \<open>None\<close> when it is
  falsy in Python (\<^verbatim>\<open>None\<close> or an empty dict), which is all the program asks of it
  before it reads its keys.
\<close>

record info =
  i_type :: "string option"
  i_entries :: "entry option list field"
  i_title :: "string option"

text \<open>
  \<^verbatim>\<open>_search_worker\<close> puts one pair on the queue: \<^verbatim>\<open>("ok", data)\<close>, where \<^verbatim>\<open>data\<close>
  may be \<^verbatim>\<open>None\<close> (the options ask the library to ignore errors), or \<^verbatim>\<open>("err", exc)\<close>.
\<close>

datatype worker_msg = Ok "info option" | Err exn

text \<open>
  A candidate, as appended to \<^verbatim>\<open>cands\<close>. The key \<^verbatim>\<open>dur\<close> holds the text of
  \<^verbatim>\<open>sec_to_hms\<close> for a video and a dash for a playlist.
\<close>

datatype dur_text = Hms string | Dash

record cand =
  c_idx :: nat
  c_entry :: entry
  c_score :: int
  c_kind :: kind
  c_metric :: string
  c_url :: string
  c_dur :: dur_text

definition normalize_url :: "kind \<Rightarrow> string \<Rightarrow> string" where
  "normalize_url k url =
     (if startswith url ''http'' then url
      else case k of
             Playlist \<Rightarrow> ''https://www.youtube.com/playlist?list='' @ url
           | Video \<Rightarrow> ''https://www.youtube.com/watch?v='' @ url)"

definition has_live :: "entry \<Rightarrow> bool" where
  "has_live e = contains (lower (or_default (e_title e) [])) ''live''"

text \<open>
  The metric text: for a playlist the word \<^verbatim>\<open>videos\<close> with its first \<^verbatim>\<open>e\<close> accented
  (code point 233), a colon and \<^verbatim>\<open>e.get('playlist_count')\<close> as \<^verbatim>\<open>str\<close> prints it; for a
  video \<^verbatim>\<open>f"vues:{e.get('view_count') or 0}"\<close>.
\<close>

definition metric_of :: "kind \<Rightarrow> entry \<Rightarrow> string" where
  "metric_of k e =
     (case k of
        Playlist \<Rightarrow>
          ''vid'' @ [CHR 0xE9] @ ''os:''
            @ (case e_playlist_count e of None \<Rightarrow> ''None'' | Some n \<Rightarrow> dec_int n)
      | Video \<Rightarrow> ''vues:'' @ dec_int (or_zero (e_view_count e)))"

text \<open>
  \<^verbatim>\<open>dur = sec_to_hms(e.get("duration")) if kind == "video" else "-"\<close> (a dash): the call
  is made for every video that reaches it, with or without \<^verbatim>\<open>--verbose\<close>.
\<close>

definition dur_of :: "kind \<Rightarrow> entry \<Rightarrow> exn + dur_text" where
  "dur_of k e =
     (case k of
        Playlist \<Rightarrow> Inr Dash
      | Video \<Rightarrow> (case sec_to_hms (e_duration e) of Inl x \<Rightarrow> Inl x | Inr s \<Rightarrow> Inr (Hms s)))"

text \<open>
  The body of the loop for one record that passed the filter, in the order of the
  source: the score, \<^verbatim>\<open>e["url"]\<close>, the completion of the locator, the metric, the
  duration text. Each of the reads may raise.
\<close>

definition make_cand :: "bool \<Rightarrow> nat \<Rightarrow> entry \<Rightarrow> exn + cand" where
  "make_cand boost_full idx e =
     (case e_url e of
        Absent \<Rightarrow> Inl (key_error ''url'')
      | Null \<Rightarrow> Inl (none_has_no ''startswith'')
      | Val u \<Rightarrow>
          (case dur_of (snd (score_entry e boost_full)) e of
             Inl x \<Rightarrow> Inl x
           | Inr d \<Rightarrow>
               Inr \<lparr>c_idx = idx, c_entry = e, c_score = fst (score_entry e boost_full),
                    c_kind = snd (score_entry e boost_full),
                    c_metric = metric_of (snd (score_entry e boost_full)) e,
                    c_url = normalize_url (snd (score_entry e boost_full)) u,
                    c_dur = d\<rparr>))"

text \<open>
  The loop \<^verbatim>\<open>for idx, e in enumerate(entries, 1)\<close> that fills \<^verbatim>\<open>cands\<close>. The first
  record whose body raises ends the loop, and the exception leaves \<^verbatim>\<open>search_best\<close>.
\<close>

fun build_cands :: "bool \<Rightarrow> bool \<Rightarrow> nat \<Rightarrow> entry option list \<Rightarrow> exn + cand list" where
  "build_cands want_live boost_full idx [] = Inr []"
| "build_cands want_live boost_full idx (None # es) =
     build_cands want_live boost_full (Suc idx) es"
| "build_cands want_live boost_full idx (Some e # es) =
     (if \<not> want_live \<and> has_live e then build_cands want_live boost_full (Suc idx) es
      else case make_cand boost_full idx e of
             Inl x \<Rightarrow> Inl x
           | Inr c \<Rightarrow>
               (case build_cands want_live boost_full (Suc idx) es of
                  Inl x \<Rightarrow> Inl x
                | Inr cs \<Rightarrow> Inr (c # cs)))"

text \<open>\<^verbatim>\<open>cands.sort(key=lambda c: (-c["score"], c["idx"]))\<close>: a stable sort on the pair.\<close>

definition sort_cands :: "cand list \<Rightarrow> cand list" where
  "sort_cands cs = sort_key (\<lambda>c. (- c_score c, c_idx c)) cs"

definition ranked_cands :: "bool \<Rightarrow> bool \<Rightarrow> entry option list \<Rightarrow> exn + cand list" where
  "ranked_cands want_live boost_full es =
     (case build_cands want_live boost_full 1 es of
        Inl x \<Rightarrow> Inl x
      | Inr cs \<Rightarrow> Inr (sort_cands cs))"

text \<open>\<^verbatim>\<open>data.get("entries") or []\<close>.\<close>

definition entries_or_nil :: "info \<Rightarrow> entry option list" where
  "entries_or_nil d = (case i_entries d of Val es \<Rightarrow> es | _ \<Rightarrow> [])"

text \<open>
  The wait for the worker:
  \<^verbatim>\<open>
  spin = tqdm(total=0, bar_format="{desc}")
  k = 0
  while spin.total == 0 or not q.qsize():
      spin.set_description(...); k += 1; time.sleep(0.2)
  \<close>
  \<open>tot\<close> is the value of \<^verbatim>\<open>spin.total\<close>, which the loop never assigns, and
  \<open>qsize k\<close> is what \<^verbatim>\<open>q.qsize()\<close> answers when the condition is evaluated for the
  \<open>k\<close>-th time (the worker thread fills the queue in the meantime). The loop may run
  forever; \<open>None\<close> is that outcome, \<open>Some k\<close> the exit after \<open>k\<close> frames.
\<close>

partial_function (option) poll_wait :: "nat \<Rightarrow> (nat \<Rightarrow> nat) \<Rightarrow> nat \<Rightarrow> nat option" where
  "poll_wait tot qsize k =
     (if tot = 0 \<or> qsize k = 0 then poll_wait tot qsize (Suc k) else Some k)"

text \<open>The spinner is built with \<^verbatim>\<open>total=0\<close>.\<close>

definition spin_total :: nat where
  "spin_total = 0"

text \<open>
  The loop over the query variants. It returns the queries handed to the provider (one
  worker thread is started per variant reached) and the outcome: the best candidate,
  \<open>None\<close> when the variants are exhausted, an exception, or no return at all.
  \<open>provider query\<close> is the pair the worker puts on the queue for that query.
\<close>

fun search_loop ::
  "nat \<Rightarrow> (string \<Rightarrow> worker_msg) \<Rightarrow> (string \<Rightarrow> nat \<Rightarrow> nat) \<Rightarrow> bool \<Rightarrow> bool \<Rightarrow> string list
     \<Rightarrow> string list \<times> cand option run" where
  "search_loop tot provider qsizes want_live boost_full [] = ([], Returns None)"
| "search_loop tot provider qsizes want_live boost_full (qstr # rest) =
     (case poll_wait tot (qsizes qstr) 0 of
        None \<Rightarrow> ([qstr], Hangs)
      | Some k \<Rightarrow>
          (case provider qstr of
             Err x \<Rightarrow>
               (let (issued, r) = search_loop tot provider qsizes want_live boost_full rest
                in (qstr # issued, r))
           | Ok None \<Rightarrow> ([qstr], Raises (none_has_no ''get''))
           | Ok (Some d) \<Rightarrow>
               (case ranked_cands want_live boost_full (entries_or_nil d) of
                  Inl x \<Rightarrow> ([qstr], Raises x)
                | Inr [] \<Rightarrow>
                    (let (issued, r) =
                       search_loop tot provider qsizes want_live boost_full rest
                     in (qstr # issued, r))
                | Inr (c # cs) \<Rightarrow> ([qstr], Returns (Some c)))))"

definition want_live_of :: "string \<Rightarrow> bool" where
  "want_live_of term = contains (lower term) ''live''"

definition boost_full_of :: "string \<Rightarrow> bool" where
  "boost_full_of term = contains (lower term) ''full album''"

definition queries_of :: "string \<Rightarrow> string list" where
  "queries_of term =
     (if boost_full_of term then [''ytsearch20:'' @ term]
      else [''ytsearch20:'' @ term, ''ytsearch20:'' @ term @ '' full album''])"

text \<open>
  \<^verbatim>\<open>search_best(term)\<close> for a given value of \<^verbatim>\<open>spin.total\<close>: the queries issued and
  the locator returned. The final locator is the best record's \<^verbatim>\<open>url\<close>, completed as
  in the candidate loop.
\<close>

definition search_session ::
  "nat \<Rightarrow> (string \<Rightarrow> worker_msg) \<Rightarrow> (string \<Rightarrow> nat \<Rightarrow> nat) \<Rightarrow> string
     \<Rightarrow> string list \<times> string run" where
  "search_session tot provider qsizes term =
     (case search_loop tot provider qsizes (want_live_of term) (boost_full_of term)
             (queries_of term) of
        (issued, Hangs) \<Rightarrow> (issued, Hangs)
      | (issued, Raises x) \<Rightarrow> (issued, Raises x)
      | (issued, Returns None) \<Rightarrow>
          (issued,
           Raises (Exn PlainException
             (''Aucun r'' @ [CHR 0xE9] @ ''sultat pertinent pour '' @ [CHR 0xAB] @ '' '' @ term
                @ '' '' @ [CHR 0xBB] @ ''.'')))
      | (issued, Returns (Some c)) \<Rightarrow> (issued, Returns (c_url c)))"

definition search_best ::
  "(string \<Rightarrow> worker_msg) \<Rightarrow> (string \<Rightarrow> nat \<Rightarrow> nat) \<Rightarrow> string \<Rightarrow> string list \<times> string run" where
  "search_best provider qsizes term = search_session spin_total provider qsizes term"

section \<open>Collection expander\<close>

text \<open>The loop of \<^verbatim>\<open>get_video_list\<close> over the members of a playlist.\<close>

fun member_urls :: "entry option list \<Rightarrow> exn + string list" where
  "member_urls [] = Inr []"
| "member_urls (None # es) = member_urls es"
| "member_urls (Some e # es) =
     (case e_url e of
        Absent \<Rightarrow> Inl (key_error ''url'')
      | Null \<Rightarrow> Inl (none_has_no ''startswith'')
      | Val vid \<Rightarrow>
          (case member_urls es of
             Inl x \<Rightarrow> Inl x
           | Inr urls \<Rightarrow>
               Inr ((if startswith vid ''http'' then vid
                     else ''https://www.youtube.com/watch?v='' @ vid) # urls)))"

text \<open>
  \<^verbatim>\<open>get_video_list(url)\<close>. \<open>extract url\<close> is what \<^verbatim>\<open>ydl.extract_info(url, download=False)\<close>
  does inside the \<^verbatim>\<open>with\<close> block: it raises, or it returns a descriptor, or \<^verbatim>\<open>None\<close>.
  \<^verbatim>\<open>info.get("entries", [])\<close> is the empty list only when the key is absent; a
  \<^verbatim>\<open>None\<close> there cannot be iterated.
\<close>

definition get_video_list ::
  "(string \<Rightarrow> exn + info option) \<Rightarrow> string \<Rightarrow> exn + (string list \<times> bool \<times> string)" where
  "get_video_list extract url =
     (case extract url of
        Inl x \<Rightarrow> Inl x
      | Inr None \<Rightarrow> Inl (none_has_no ''get'')
      | Inr (Some d) \<Rightarrow>
          if i_type d = Some ''playlist''
          then (case i_entries d of
                  Null \<Rightarrow> Inl none_not_iterable
                | Absent \<Rightarrow> Inr ([], True, or_default (i_title d) ''playlist'')
                | Val es \<Rightarrow>
                    (case member_urls es of
                       Inl x \<Rightarrow> Inl x
                     | Inr urls \<Rightarrow> Inr (urls, True, or_default (i_title d) ''playlist'')))
          else Inr ([url], False, or_default (i_title d) ''video''))"

section \<open>Fetch orchestrator\<close>

text \<open>
  The options dict of \<^verbatim>\<open>build_ydl_opts\<close>. A key the function does not set is \<open>None\<close>.
  The progress hook is the method of the per-item \<^verbatim>\<open>ProgressBar\<close>.
\<close>

datatype postprocessor = FFmpegExtractAudio string string | FFmpegMetadata | EmbedThumbnail

datatype hook = ProgressBarHook

record ydl_opts =
  o_outtmpl :: string
  o_quiet :: bool
  o_no_warnings :: bool
  o_progress_hooks :: "hook list"
  o_ignoreerrors :: bool
  o_socket_timeout :: nat
  o_format :: string
  o_postprocessors :: "postprocessor list option"
  o_writethumbnail :: "bool option"
  o_merge_output_format :: "string option"

definition build_ydl_opts :: "string \<Rightarrow> string \<Rightarrow> bool \<Rightarrow> ydl_opts" where
  "build_ydl_opts fmt outtmpl embed_thumb =
     (let opts = \<lparr>o_outtmpl = outtmpl, o_quiet = True, o_no_warnings = True,
                  o_progress_hooks = [], o_ignoreerrors = True, o_socket_timeout = 10,
                  o_format = [], o_postprocessors = None, o_writethumbnail = None,
                  o_merge_output_format = None\<rparr>
      in if fmt = ''mp3''
         then (let opts = opts\<lparr>o_format := ''bestaudio/best'',
                                o_postprocessors :=
                                  Some [FFmpegExtractAudio ''mp3'' ''192'', FFmpegMetadata]\<rparr>
               in if embed_thumb
                  then opts\<lparr>o_postprocessors :=
                              Some [FFmpegExtractAudio ''mp3'' ''192'', FFmpegMetadata,
                                    EmbedThumbnail],
                            o_writethumbnail := Some True\<rparr>
                  else opts)
         else (let opts = opts\<lparr>o_format := ''bestvideo+bestaudio/best'',
                                o_merge_output_format := Some ''mp4''\<rparr>
               in if embed_thumb
                  then opts\<lparr>o_writethumbnail := Some True,
                            o_postprocessors := Some [EmbedThumbnail]\<rparr>
                  else opts))"

text \<open>
  The destination template of the \<open>i\<close>-th item:
  \<^verbatim>\<open>"%(title)s.%(ext)s" if not is_playlist else f"{i:03d} - %(title)s.%(ext)s"\<close>,
  joined to the output directory by \<^verbatim>\<open>os.path.join\<close> (POSIX).
\<close>

definition name_tmpl :: "bool \<Rightarrow> nat \<Rightarrow> string" where
  "name_tmpl is_playlist i =
     (if \<not> is_playlist then ''%(title)s.%(ext)s''
      else zfill 3 (dec_nat i) @ '' - %(title)s.%(ext)s'')"

definition path_join :: "string \<Rightarrow> string \<Rightarrow> string" where
  "path_join a b =
     (if startswith b ''/'' then b
      else if a = [] \<or> last a = CHR ''/'' then a @ b
      else a @ ''/'' @ b)"

definition item_opts :: "string \<Rightarrow> string \<Rightarrow> bool \<Rightarrow> bool \<Rightarrow> nat \<Rightarrow> ydl_opts" where
  "item_opts fmt outdir is_playlist embed_thumb i =
     (build_ydl_opts fmt (path_join outdir (name_tmpl is_playlist i)) embed_thumb)
       \<lparr>o_progress_hooks := [ProgressBarHook]\<rparr>"

text \<open>
  What happens to one item inside the downloader: the download succeeds, or it fails
  with a reason (the item is unavailable, blocked, corrupt), or an exception that the
  downloader does not handle escapes from it.
\<close>

datatype item_outcome = Downloads | DownloadFails string | Escapes exn

text \<open>
  What the \<^verbatim>\<open>try\<close> body of \<^verbatim>\<open>download_list\<close> does for one item: it completes or it
  raises.
\<close>

datatype fetch_result = Fetched | Failed exn

text \<open>
  \<^verbatim>\<open>with YoutubeDL(opts) as ydl: ydl.download([url])\<close>. The downloader is the library
  yt-dlp, which is not part of the repository; its documented behaviour is taken here:
  it reports a failed download by raising \<^verbatim>\<open>DownloadError\<close> with the reason, unless the
  option \<^verbatim>\<open>ignoreerrors\<close> is set, in which case it prints the reason, keeps a non-zero
  return code and returns. \<^verbatim>\<open>download_list\<close> does not read the return code.
\<close>

definition ydl_download :: "ydl_opts \<Rightarrow> item_outcome \<Rightarrow> fetch_result" where
  "ydl_download opts outcome =
     (case outcome of
        Downloads \<Rightarrow> Fetched
      | DownloadFails reason \<Rightarrow>
          if o_ignoreerrors opts then Fetched else Failed (Exn DownloadError reason)
      | Escapes x \<Rightarrow> Failed x)"

text \<open>
  The \<^verbatim>\<open>try\<close> body for the \<open>i\<close>-th item; \<open>world i url\<close> is what happens to that item.
\<close>

definition fetch_item ::
  "(nat \<Rightarrow> string \<Rightarrow> item_outcome) \<Rightarrow> string \<Rightarrow> string \<Rightarrow> bool \<Rightarrow> bool \<Rightarrow> nat \<Rightarrow> string
     \<Rightarrow> fetch_result" where
  "fetch_item world fmt outdir is_playlist embed_thumb i url =
     ydl_download (item_opts fmt outdir is_playlist embed_thumb i) (world i url)"

text \<open>
  The state of a run of \<^verbatim>\<open>download_list\<close>: the locators handed to the fetcher so far,
  the list \<^verbatim>\<open>fails\<close>, and the exception that left the function, if any.
\<close>

record dl_report =
  attempted :: "string list"
  fails :: "(string \<times> string) list"
  raised :: "exn option"

text \<open>
  \<^verbatim>\<open>for i, url in enumerate(urls, 1)\<close>. Only \<^verbatim>\<open>except DownloadError as e\<close> guards the
  call, and it appends \<^verbatim>\<open>(url, str(e))\<close> to \<^verbatim>\<open>fails\<close>.
\<close>

fun download_loop ::
  "(nat \<Rightarrow> string \<Rightarrow> item_outcome) \<Rightarrow> string \<Rightarrow> string \<Rightarrow> bool \<Rightarrow> bool \<Rightarrow> nat \<Rightarrow> string list
     \<Rightarrow> dl_report \<Rightarrow> dl_report" where
  "download_loop world fmt outdir is_playlist embed_thumb i [] r = r"
| "download_loop world fmt outdir is_playlist embed_thumb i (url # urls) r =
     (case fetch_item world fmt outdir is_playlist embed_thumb i url of
        Fetched \<Rightarrow>
          download_loop world fmt outdir is_playlist embed_thumb (Suc i) urls
            (r\<lparr>attempted := attempted r @ [url]\<rparr>)
      | Failed (Exn cls msg) \<Rightarrow>
          if cls = DownloadError
          then download_loop world fmt outdir is_playlist embed_thumb (Suc i) urls
                 (r\<lparr>attempted := attempted r @ [url], fails := fails r @ [(url, msg)]\<rparr>)
          else r\<lparr>attempted := attempted r @ [url], raised := Some (Exn cls msg)\<rparr>)"

text \<open>
  \<^verbatim>\<open>download_list(urls, fmt, outdir, is_playlist, verbose, embed_thumb)\<close>; \<^verbatim>\<open>verbose\<close>
  only adds prints. \<open>makedirs outdir\<close> is the outcome of
  \<^verbatim>\<open>os.makedirs(outdir, exist_ok=True)\<close>: \<open>None\<close> when it succeeds.
\<close>

definition download_list ::
  "(string \<Rightarrow> exn option) \<Rightarrow> (nat \<Rightarrow> string \<Rightarrow> item_outcome) \<Rightarrow> string list \<Rightarrow> string \<Rightarrow> string
     \<Rightarrow> bool \<Rightarrow> bool \<Rightarrow> dl_report" where
  "download_list makedirs world urls fmt outdir is_playlist embed_thumb =
     (case makedirs outdir of
        Some x \<Rightarrow> \<lparr>attempted = [], fails = [], raised = Some x\<rparr>
      | None \<Rightarrow>
          download_loop world fmt outdir is_playlist embed_thumb 1 urls
            \<lparr>attempted = [], fails = [], raised = None\<rparr>)"

text \<open>The failures a run records for the items from ordinal \<open>i\<close> on.\<close>

definition download_failures ::
  "(nat \<Rightarrow> string \<Rightarrow> fetch_result) \<Rightarrow> nat \<Rightarrow> string list \<Rightarrow> (string \<times> string) list" where
  "download_failures fetch i urls =
     concat (map (\<lambda>(j, url). case fetch j url of
                                 Fetched \<Rightarrow> []
                               | Failed (Exn cls msg) \<Rightarrow>
                                   if cls = DownloadError then [(url, msg)] else [])
                 (enumerate i urls))"

definition raises_other :: "fetch_result \<Rightarrow> bool" where
  "raises_other r =
     (case r of Fetched \<Rightarrow> False | Failed (Exn cls msg) \<Rightarrow> cls \<noteq> DownloadError)"

section \<open>Command line\<close>

datatype task_kind = SearchTask | UrlTask

type_synonym task = "task_kind \<times> string"

text \<open>
  The parsed arguments the task loop reads. \<^verbatim>\<open>--format\<close> is \<^verbatim>\<open>mp3\<close> or \<^verbatim>\<open>mp4\<close>;
  \<^verbatim>\<open>--verbose\<close> only adds prints.
\<close>

record args =
  a_inputs :: "string list"
  a_search :: "string option"
  a_format :: string
  a_output :: "string option"
  a_thumbnail :: bool
  a_help :: bool

definition classify :: "string \<Rightarrow> task" where
  "classify l = (if \<not> startswith l ''http'' then SearchTask else UrlTask, l)"

text \<open>
  The lines of a file, as \<^verbatim>\<open>for l in f\<close> yields them: each is stripped, an empty
  result is skipped, every other line becomes a task.
\<close>

fun file_tasks :: "string list \<Rightarrow> task list" where
  "file_tasks [] = []"
| "file_tasks (l # ls) =
     (if strip l = [] then file_tasks ls else classify (strip l) # file_tasks ls)"

text \<open>
  \<^verbatim>\<open>gather_tasks(args)\<close>. \<open>fs path\<close> is the list of lines of the regular file at
  \<open>path\<close>, \<open>None\<close> when \<^verbatim>\<open>os.path.isfile(path)\<close> is false.
\<close>

fun input_tasks :: "(string \<Rightarrow> string list option) \<Rightarrow> string list \<Rightarrow> task list" where
  "input_tasks fs [] = []"
| "input_tasks fs (inp # inps) =
     (case fs inp of
        Some ls \<Rightarrow> file_tasks ls @ input_tasks fs inps
      | None \<Rightarrow> classify inp # input_tasks fs inps)"

definition truthy :: "string option \<Rightarrow> bool" where
  "truthy v = (case v of None \<Rightarrow> False | Some s \<Rightarrow> s \<noteq> [])"

definition gather_tasks :: "(string \<Rightarrow> string list option) \<Rightarrow> args \<Rightarrow> task list" where
  "gather_tasks fs a =
     input_tasks fs (a_inputs a)
       @ (case a_search a of
            None \<Rightarrow> []
          | Some s \<Rightarrow> if s = [] then [] else [(SearchTask, s)])"

text \<open>What the outside world answers during one task.\<close>

record task_env =
  env_provider :: "string \<Rightarrow> worker_msg"
  env_qsizes :: "string \<Rightarrow> nat \<Rightarrow> nat"
  env_extract :: "string \<Rightarrow> exn + info option"
  env_makedirs :: "string \<Rightarrow> exn option"
  env_world :: "nat \<Rightarrow> string \<Rightarrow> item_outcome"

text \<open>The body of the \<^verbatim>\<open>try\<close> block of \<^verbatim>\<open>cli\<close> for one task.\<close>

definition resolve_url :: "task_env \<Rightarrow> task \<Rightarrow> string run" where
  "resolve_url env t =
     (case fst t of
        SearchTask \<Rightarrow> snd (search_best (env_provider env) (env_qsizes env) (snd t))
      | UrlTask \<Rightarrow> Returns (snd t))"

definition outdir_of :: "args \<Rightarrow> bool \<Rightarrow> string \<Rightarrow> string" where
  "outdir_of a is_pl title =
     or_default (a_output a) (if is_pl then sanitize title else ''downloads'')"

definition run_task :: "task_env \<Rightarrow> args \<Rightarrow> task \<Rightarrow> unit run" where
  "run_task env a t =
     (case resolve_url env t of
        Hangs \<Rightarrow> Hangs
      | Raises x \<Rightarrow> Raises x
      | Returns url \<Rightarrow>
          (case get_video_list (env_extract env) url of
             Inl x \<Rightarrow> Raises x
           | Inr (urls, is_pl, title) \<Rightarrow>
               (case raised (download_list (env_makedirs env) (env_world env) urls
                               (a_format a) (outdir_of a is_pl title) is_pl
                               (a_thumbnail a)) of
                  Some x \<Rightarrow> Raises x
                | None \<Rightarrow> Returns ())))"

text \<open>
  The run of \<^verbatim>\<open>cli\<close>: its exit code (\<open>None\<close> when the process never exits), the
  tasks it started and the per-task errors it printed (\<^verbatim>\<open>except Exception as exc\<close>).
\<close>

record cli_result =
  exit_code :: "nat option"
  started :: "task list"
  errors :: "(string \<times> exn) list"

text \<open>
  \<^verbatim>\<open>for kind, val in tasks\<close>; \<open>envs n\<close> is the world during the \<open>n\<close>-th task. When the
  loop ends \<^verbatim>\<open>cli\<close> returns and the interpreter exits with code 0.
\<close>

fun run_tasks :: "(nat \<Rightarrow> task_env) \<Rightarrow> args \<Rightarrow> nat \<Rightarrow> task list \<Rightarrow> cli_result \<Rightarrow> cli_result" where
  "run_tasks envs a n [] r = r\<lparr>exit_code := Some 0\<rparr>"
| "run_tasks envs a n (t # ts) r =
     (case run_task (envs n) a t of
        Hangs \<Rightarrow> r\<lparr>started := started r @ [t]\<rparr>
      | Raises x \<Rightarrow>
          run_tasks envs a (Suc n) ts
            (r\<lparr>started := started r @ [t], errors := errors r @ [(snd t, x)]\<rparr>)
      | Returns u \<Rightarrow> run_tasks envs a (Suc n) ts (r\<lparr>started := started r @ [t]\<rparr>))"

definition cli :: "(string \<Rightarrow> string list option) \<Rightarrow> (nat \<Rightarrow> task_env) \<Rightarrow> args \<Rightarrow> cli_result" where
  "cli fs envs a =
     (if a_help a \<or> (a_inputs a = [] \<and> \<not> truthy (a_search a))
      then \<lparr>exit_code = Some 0, started = [], errors = []\<rparr>
      else if gather_tasks fs a = []
      then \<lparr>exit_code = Some 1, started = [], errors = []\<rparr>
      else run_tasks envs a 0 (gather_tasks fs a)
             \<lparr>exit_code = None, started = [], errors = []\<rparr>)"

text \<open>The errors a run prints for the tasks from position \<open>n\<close> on.\<close>

definition task_errors ::
  "(nat \<Rightarrow> task_env) \<Rightarrow> args \<Rightarrow> nat \<Rightarrow> task list \<Rightarrow> (string \<times> exn) list" where
  "task_errors envs a n ts =
     concat (map (\<lambda>(i, t). case run_task (envs i) a t of
                               Raises x \<Rightarrow> [(snd t, x)]
                             | _ \<Rightarrow> [])
                 (enumerate n ts))"

section \<open>Scenarios\<close>

text \<open>
  The end-to-end scenario of the specification: the term, the collection record with
  twelve members and the item record with two million views. The locators are not given
  there; any identifiers do.
\<close>

definition scenario_term :: string where
  "scenario_term = ''Band - Album (1999) full album''"

definition scenario_collection :: entry where
  "scenario_collection =
     \<lparr>e_title = Some ''Band - Album (1999) Full Album [Official]'', e_type = Some ''playlist'',
      e_playlist_count = Some 12, e_view_count = None, e_url = Val ''PL1'',
      e_duration = NoDuration\<rparr>"

definition scenario_item :: entry where
  "scenario_item =
     \<lparr>e_title = Some ''Band - Album (1999) Full Album (review)'', e_type = Some ''url'',
      e_playlist_count = None, e_view_count = Some 2000000, e_url = Val ''v1'',
      e_duration = NoDuration\<rparr>"

definition scenario_provider :: "string \<Rightarrow> worker_msg" where
  "scenario_provider q =
     Ok (Some \<lparr>i_type = Some ''playlist'',
               i_entries = Val [Some scenario_collection, Some scenario_item],
               i_title = Some q\<rparr>)"

text \<open>
  A provider answer with a concert recording of very high popularity and a studio
  recording, and a queue that holds the worker's pair from the first poll on.
\<close>

definition concert_entry :: entry where
  "concert_entry =
     \<lparr>e_title = Some ''Band Live in Paris'', e_type = Some ''url'',
      e_playlist_count = None, e_view_count = Some 900000000, e_url = Val ''v2'',
      e_duration = Seconds 5400\<rparr>"

definition studio_entry :: entry where
  "studio_entry =
     \<lparr>e_title = Some ''Band - Song'', e_type = Some ''url'',
      e_playlist_count = None, e_view_count = Some 5, e_url = Val ''v3'',
      e_duration = Seconds 215\<rparr>"

definition studio_provider :: "string \<Rightarrow> worker_msg" where
  "studio_provider q =
     Ok (Some \<lparr>i_type = Some ''playlist'', i_entries = Val [Some concert_entry, Some studio_entry],
               i_title = Some q\<rparr>)"

text \<open>
  The candidates these records give at position \<open>i\<close> of an answer, and a record under
  a live title whose duration is a string.
\<close>

definition collection_cand :: "nat \<Rightarrow> cand" where
  "collection_cand i =
     \<lparr>c_idx = i, c_entry = scenario_collection, c_score = 762, c_kind = Playlist,
      c_metric = ''vid'' @ [CHR 0xE9] @ ''os:12'',
      c_url = ''https://www.youtube.com/playlist?list=PL1'', c_dur = Dash\<rparr>"

definition item_cand :: "nat \<Rightarrow> cand" where
  "item_cand i =
     \<lparr>c_idx = i, c_entry = scenario_item, c_score = 620, c_kind = Video,
      c_metric = ''vues:2000000'', c_url = ''https://www.youtube.com/watch?v=v1'',
      c_dur = Hms ''?''\<rparr>"

definition concert_cand :: "nat \<Rightarrow> cand" where
  "concert_cand i =
     \<lparr>c_idx = i, c_entry = concert_entry, c_score = 9000, c_kind = Video,
      c_metric = ''vues:900000000'', c_url = ''https://www.youtube.com/watch?v=v2'',
      c_dur = Hms ''1:30:00''\<rparr>"

definition studio_cand :: "nat \<Rightarrow> cand" where
  "studio_cand i =
     \<lparr>c_idx = i, c_entry = studio_entry, c_score = 0, c_kind = Video,
      c_metric = ''vues:5'', c_url = ''https://www.youtube.com/watch?v=v3'',
      c_dur = Hms ''0:03:35''\<rparr>"

definition odd_entry :: entry where
  "odd_entry =
     \<lparr>e_title = Some ''Band Live at Home'', e_type = Some ''url'',
      e_playlist_count = None, e_view_count = Some 7, e_url = Val ''v4'',
      e_duration = OtherValue ''str''\<rparr>"

definition queue_ready :: "string \<Rightarrow> nat \<Rightarrow> nat" where
  "queue_ready q k = 1"

text \<open>A playlist descriptor none of whose members can be resolved.\<close>

definition empty_playlist :: info where
  "empty_playlist = \<lparr>i_type = Some ''playlist'', i_entries = Val [None, None], i_title = Some ''Mix''\<rparr>"

definition empty_extract :: "string \<Rightarrow> exn + info option" where
  "empty_extract url = Inr (Some empty_playlist)"

text \<open>
  Five items; a world in which the download of the third item fails, and one in which an
  \<^verbatim>\<open>OSError\<close> escapes from the downloader at the third item.
\<close>

definition five_items :: "string list" where
  "five_items = [''u1'', ''u2'', ''u3'', ''u4'', ''u5'']"

definition third_fails :: "nat \<Rightarrow> string \<Rightarrow> item_outcome" where
  "third_fails i url = (if i = 3 then DownloadFails ''geo-blocked'' else Downloads)"

definition third_crashes :: "nat \<Rightarrow> string \<Rightarrow> item_outcome" where
  "third_crashes i url = (if i = 3 then Escapes (Exn OSError ''disk full'') else Downloads)"

definition makedirs_ok :: "string \<Rightarrow> exn option" where
  "makedirs_ok outdir = None"

text \<open>
  Two direct locators on the command line, the first of which the provider cannot
  resolve; and a task file with a comment line, a blank line, a locator and a term.
\<close>

definition no_files :: "string \<Rightarrow> string list option" where
  "no_files path = None"

definition broken_extract :: "string \<Rightarrow> exn + info option" where
  "broken_extract url =
     (if url = ''http://a'' then Inl (Exn DownloadError ''unavailable'')
      else Inr (Some \<lparr>i_type = Some ''video'', i_entries = Absent, i_title = Some ''B''\<rparr>))"

definition broken_env :: "nat \<Rightarrow> task_env" where
  "broken_env n =
     \<lparr>env_provider = (\<lambda>q. Err (Exn OtherError ''offline'')), env_qsizes = (\<lambda>q k. 1),
      env_extract = broken_extract, env_makedirs = makedirs_ok,
      env_world = (\<lambda>i url. Downloads)\<rparr>"

definition two_urls :: args where
  "two_urls = \<lparr>a_inputs = [''http://a'', ''http://b''], a_search = None, a_format = ''mp4'',
                a_output = None, a_thumbnail = False, a_help = False\<rparr>"

definition list_file :: "string \<Rightarrow> string list option" where
  "list_file path =
     (if path = ''list.txt''
      then Some [''# favourites'' @ [CHR 0x0A], [CHR 0x0A], ''  http://a '' @ [CHR 0x0A],
                 ''some song'' @ [CHR 0x0A]]
      else None)"

definition from_file :: args where
  "from_file = \<lparr>a_inputs = [''list.txt''], a_search = None, a_format = ''mp4'',
                 a_output = None, a_thumbnail = False, a_help = False\<rparr>"

section \<open>Properties of the sanitizer\<close>

lemma sub_char_space:
  "is_space (if invalid_fs c then CHR ''_'' else c) = is_space c"
  by (auto simp: invalid_fs_def is_space_def)

lemma sub_char_dot:
  "((if invalid_fs c then CHR ''_'' else c) = CHR ''.'') = (c = CHR ''.'')"
  by (auto simp: invalid_fs_def)

lemma strip_sub_invalid: "strip (sub_invalid s) = sub_invalid (strip s)"
  by (simp add: strip_def sub_invalid_def lstrip_with_def rstrip_with_def dropWhile_map
      rev_map comp_def sub_char_space)

lemma rstrip_with_Nil: "rstrip_with p s = [] \<longleftrightarrow> (\<forall>c\<in>set s. p c)"
  by (simp add: rstrip_with_def dropWhile_eq_Nil_conv)

lemma sub_invalid_all_dots:
  "(\<forall>c\<in>set (sub_invalid t). c = CHR ''.'') \<longleftrightarrow> (\<forall>c\<in>set t. c = CHR ''.'')"
  by (induction t) (simp_all add: sub_invalid_def sub_char_dot)

text \<open>
  Substitution never empties a name: the result before the fallback is empty exactly
  when the stripped name is a run of dots (possibly none).
\<close>

lemma sanitize_core_Nil:
  "sanitize_core name = [] \<longleftrightarrow> (\<forall>c\<in>set (strip name). c = CHR ''.'')"
proof -
  have "sanitize_core name = [] \<longleftrightarrow> rstrip_dots (sub_invalid (strip name)) = []"
    by (simp add: sanitize_core_def strip_sub_invalid)
  also have "\<dots> \<longleftrightarrow> (\<forall>c\<in>set (sub_invalid (strip name)). c = CHR ''.'')"
    by (simp add: rstrip_dots_def rstrip_with_Nil)
  also have "\<dots> \<longleftrightarrow> (\<forall>c\<in>set (strip name). c = CHR ''.'')"
    by (rule sub_invalid_all_dots)
  finally show ?thesis .
qed

text \<open>
  C4, as the spec states it, fails: \<^verbatim>\<open>sanitize("???")\<close> is not the fallback, since each
  question mark is replaced by an underscore and the result \<^verbatim>\<open>"___"\<close> is not empty.
\<close>

theorem sanitize_question_marks_counterexample:
  "\<not> (sanitize '''' = ''output'' \<and> sanitize ''???'' = ''output''
      \<and> sanitize ''A/B:C'' = ''A_B_C'')"
proof -
  have "sanitize ''???'' = ''___''" by code_simp
  then show ?thesis by simp
qed

text \<open>
  C4 (amended): the sanitizer answers \<^verbatim>\<open>"output"\<close> exactly when the substituted, trimmed
  and truncated result is empty, which is when the stripped name consists of dots only,
  or is the word \<^verbatim>\<open>"output"\<close> itself; in every other case it answers that result.
  So \<^verbatim>\<open>sanitize("")\<close> is \<^verbatim>\<open>"output"\<close>, \<^verbatim>\<open>sanitize("???")\<close> is \<^verbatim>\<open>"___"\<close> and
  \<^verbatim>\<open>sanitize("A/B:C")\<close> is \<^verbatim>\<open>"A_B_C"\<close>.
\<close>

theorem sanitize_fallback:
  "(sanitize name = ''output'' \<longleftrightarrow>
      (\<forall>c\<in>set (strip name). c = CHR ''.'') \<or> sanitize_core name = ''output'')
   \<and> (sanitize name \<noteq> ''output'' \<longrightarrow> sanitize name = sanitize_core name)
   \<and> sanitize '''' = ''output''
   \<and> sanitize ''???'' = ''___''
   \<and> sanitize ''A/B:C'' = ''A_B_C''"
proof -
  have a: "sanitize name = ''output'' \<longleftrightarrow>
      (\<forall>c\<in>set (strip name). c = CHR ''.'') \<or> sanitize_core name = ''output''"
    using sanitize_core_Nil [of name] by (auto simp: sanitize_def)
  have b: "sanitize name \<noteq> ''output'' \<longrightarrow> sanitize name = sanitize_core name"
    by (simp add: sanitize_def)
  have c: "sanitize '''' = ''output''" by code_simp
  have d: "sanitize ''???'' = ''___''" by code_simp
  have e: "sanitize ''A/B:C'' = ''A_B_C''" by code_simp
  from a b c d e show ?thesis by blast
qed

text \<open>The amended C4 at a name of blanks and dots, and at a name that keeps its text.\<close>

theorem sanitize_fallback_witness:
  "strip '' .. '' = ''..'' \<and> sanitize '' .. '' = ''output''
   \<and> sanitize ''a?b'' \<noteq> ''output'' \<and> sanitize ''a?b'' = sanitize_core ''a?b''"
proof -
  have s: "strip '' .. '' = ''..''" by code_simp
  have n: "sanitize ''a?b'' \<noteq> ''output''" by code_simp
  show ?thesis
    using sanitize_fallback [of "'' .. ''"] sanitize_fallback [of "''a?b''"] s n by simp
qed

section \<open>Properties of the wait for the worker\<close>

text \<open>The loop can only exit when \<^verbatim>\<open>spin.total\<close> is not zero.\<close>

lemma poll_wait_Some_total: "poll_wait tot qsize k = Some r \<Longrightarrow> tot \<noteq> 0"
proof -
  assume "poll_wait tot qsize k = Some r"
  then show "tot \<noteq> 0"
    by (rule poll_wait.raw_induct [where P = "\<lambda>t q j y. t \<noteq> 0", rotated 1])
       (simp split: if_splits)
qed

lemma poll_wait_zero: "poll_wait 0 qsize k = None"
  using poll_wait_Some_total [of 0 qsize k] by (cases "poll_wait 0 qsize k") auto

text \<open>
  With any other value of \<^verbatim>\<open>spin.total\<close> the loop does exit once the queue is seen
  non-empty: the test of \<^verbatim>\<open>spin.total\<close> alone keeps the program in the loop.
\<close>

lemma poll_wait_exits:
  "tot \<noteq> 0 \<Longrightarrow> qsize (k + n) \<noteq> 0 \<Longrightarrow> \<exists>r. poll_wait tot qsize k = Some r"
proof (induction n arbitrary: k)
  case 0
  then show ?case by (subst poll_wait.simps) simp
next
  case (Suc n)
  from Suc.prems have "qsize (Suc k + n) \<noteq> 0" by simp
  from Suc.IH [OF Suc.prems(1) this] show ?case
    by (subst poll_wait.simps) auto
qed

lemma poll_wait_ready: "poll_wait 1 (queue_ready q) 0 = Some 0"
  by (subst poll_wait.simps) (simp add: queue_ready_def)

text \<open>
  C3: the claim is that the polling wait ends once the worker has put its outcome on the
  queue. In the program the spinner is built with \<^verbatim>\<open>total=0\<close> and the loop condition is
  \<^verbatim>\<open>spin.total == 0 or not q.qsize()\<close>, so the wait never ends, whatever the queue
  holds, and \<^verbatim>\<open>search_best\<close> hangs after it has started the worker of its first query.
\<close>

theorem poll_wait_never_exits:
  "poll_wait spin_total qsize k = None
   \<and> search_best provider qsizes tm = ([''ytsearch20:'' @ tm], Hangs)"
proof -
  obtain rest where q: "queries_of tm = (''ytsearch20:'' @ tm) # rest"
    by (cases "boost_full_of tm") (simp_all add: queries_of_def)
  have "search_loop 0 provider qsizes (want_live_of tm) (boost_full_of tm) (queries_of tm)
          = ([''ytsearch20:'' @ tm], Hangs)"
    unfolding q by (simp add: poll_wait_zero)
  then show ?thesis
    by (simp add: search_best_def search_session_def spin_total_def poll_wait_zero)
qed

section \<open>Properties of the search session\<close>

text \<open>Rules that evaluate the decimal and duration texts at concrete numbers.\<close>

lemma replicate_small:
  "replicate 1 c = [c]" "replicate 2 c = [c, c]" "replicate 3 c = [c, c, c]"
  by (simp_all add: numeral_2_eq_2 numeral_3_eq_3)

lemmas text_eval = replicate_small dec_int_def digit_char_def zfill_def str_timedelta_def
  timedelta_seconds_def sec_to_hms_def metric_of_def or_zero_def Let_def

lemma search_loop_first:
  assumes "provider q = Ok (Some d)"
    and "ranked_cands wl bf (entries_or_nil d) = Inr (c # cs)"
  shows "fst (search_loop tot provider qsizes wl bf (q # rest)) = [q]"
  using assms by (cases "poll_wait tot (qsizes q) 0") simp_all

lemma search_session_issued:
  "fst (search_session tot provider qsizes tm) =
     fst (search_loop tot provider qsizes (want_live_of tm) (boost_full_of tm)
            (queries_of tm))"
  by (simp add: search_session_def split: prod.splits run.splits option.splits)

text \<open>
  C7: with two query variants, when the first variant's answer holds at least one
  eligible record, the only query handed to the provider is the first one. This holds
  for every behaviour of the wait, in particular for \<^verbatim>\<open>search_best\<close> as written.
\<close>

theorem variant_short_circuit:
  assumes "\<not> boost_full_of tm"
    and "provider (''ytsearch20:'' @ tm) = Ok (Some d)"
    and "ranked_cands (want_live_of tm) (boost_full_of tm) (entries_or_nil d) = Inr (c # cs)"
  shows "queries_of tm = [''ytsearch20:'' @ tm, ''ytsearch20:'' @ tm @ '' full album'']
    \<and> fst (search_session tot provider qsizes tm) = [''ytsearch20:'' @ tm]
    \<and> fst (search_best provider qsizes tm) = [''ytsearch20:'' @ tm]"
proof -
  have q: "queries_of tm = [''ytsearch20:'' @ tm, ''ytsearch20:'' @ tm @ '' full album'']"
    using assms(1) by (simp add: queries_of_def)
  have "fst (search_loop t provider qsizes (want_live_of tm) (boost_full_of tm)
               (queries_of tm)) = [''ytsearch20:'' @ tm]" for t
    unfolding q using assms(2,3) by (rule search_loop_first)
  then have "fst (search_session t provider qsizes tm) = [''ytsearch20:'' @ tm]" for t
    by (simp add: search_session_issued)
  then show ?thesis using q by (simp add: search_best_def)
qed

lemma studio_flags:
  "want_live_of ''band'' = False" "boost_full_of ''band'' = False"
  "want_live_of ''band live'' = True" "boost_full_of ''band live'' = False"
  by code_simp+

lemma studio_live: "has_live concert_entry = True" "has_live studio_entry = False"
  "has_live odd_entry = True"
  by code_simp+

lemma studio_scores:
  "score_entry concert_entry False = (9000, Video)"
  "score_entry studio_entry False = (0, Video)"
  "score_entry odd_entry False = (0, Video)"
  by code_simp+

lemma studio_urls: "e_url concert_entry = Val ''v2''" "e_url studio_entry = Val ''v3''"
  "e_url odd_entry = Val ''v4''"
  by (simp_all add: concert_entry_def studio_entry_def odd_entry_def)

lemma studio_metrics:
  "metric_of Video concert_entry = ''vues:900000000''"
  "metric_of Video studio_entry = ''vues:5''"
  by (simp_all add: text_eval concert_entry_def studio_entry_def)

lemma studio_durs:
  "sec_to_hms (e_duration concert_entry) = Inr ''1:30:00''"
  "sec_to_hms (e_duration studio_entry) = Inr ''0:03:35''"
  "sec_to_hms (e_duration odd_entry) =
     Inl (Exn TypeError ''unsupported type for timedelta seconds component: str'')"
  by (simp_all add: text_eval concert_entry_def studio_entry_def odd_entry_def)

lemma studio_make:
  "make_cand False i concert_entry = Inr (concert_cand i)"
  "make_cand False i studio_entry = Inr (studio_cand i)"
  "make_cand False i odd_entry =
     Inl (Exn TypeError ''unsupported type for timedelta seconds component: str'')"
  by (simp_all add: make_cand_def dur_of_def studio_scores studio_urls studio_metrics
      studio_durs normalize_url_def startswith_def concert_cand_def studio_cand_def)

lemma studio_ranked:
  "ranked_cands False False [Some concert_entry, Some studio_entry] = Inr [studio_cand 2]"
  "ranked_cands True False [Some concert_entry, Some studio_entry] =
     Inr [concert_cand 1, studio_cand 2]"
  "ranked_cands True False [Some odd_entry] =
     Inl (Exn TypeError ''unsupported type for timedelta seconds component: str'')"
  by (simp_all add: ranked_cands_def sort_cands_def studio_live studio_make
      less_eq_prod_def concert_cand_def studio_cand_def)

text \<open>C7 at the term \<^verbatim>\<open>band\<close>, whose first variant yields the studio recording.\<close>

theorem variant_short_circuit_witness:
  "queries_of ''band'' = [''ytsearch20:band'', ''ytsearch20:band full album'']
   \<and> fst (search_session 1 studio_provider queue_ready ''band'') = [''ytsearch20:band'']
   \<and> fst (search_best studio_provider queue_ready ''band'') = [''ytsearch20:band'']"
proof -
  have a: "\<not> boost_full_of ''band''" by (simp add: studio_flags)
  have b: "studio_provider (''ytsearch20:'' @ ''band'') =
      Ok (Some \<lparr>i_type = Some ''playlist'',
                i_entries = Val [Some concert_entry, Some studio_entry],
                i_title = Some (''ytsearch20:'' @ ''band'')\<rparr>)"
    by (simp add: studio_provider_def)
  have c: "ranked_cands (want_live_of ''band'') (boost_full_of ''band'')
        (entries_or_nil \<lparr>i_type = Some ''playlist'',
                i_entries = Val [Some concert_entry, Some studio_entry],
                i_title = Some (''ytsearch20:'' @ ''band'')\<rparr>) =
      Inr (studio_cand 2 # [])"
    by (simp add: entries_or_nil_def studio_flags studio_ranked)
  show ?thesis
    using variant_short_circuit [where tm = "''band''" and provider = studio_provider
        and tot = 1 and qsizes = queue_ready, OF a b c]
    by simp
qed

lemma scenario_boost: "boost_full_of scenario_term = True" "want_live_of scenario_term = False"
  by code_simp+

lemma scenario_scores:
  "score_entry scenario_collection True = (762, Playlist)"
  "score_entry scenario_item True = (620, Video)"
  by code_simp+

lemma scenario_live: "has_live scenario_collection = False" "has_live scenario_item = False"
  by code_simp+

lemma scenario_urls: "e_url scenario_collection = Val ''PL1''" "e_url scenario_item = Val ''v1''"
  by (simp_all add: scenario_collection_def scenario_item_def)

lemma scenario_metrics:
  "metric_of Playlist scenario_collection = ''vid'' @ [CHR 0xE9] @ ''os:12''"
  "metric_of Video scenario_item = ''vues:2000000''"
  by (simp_all add: text_eval scenario_collection_def scenario_item_def)

lemma scenario_durs: "sec_to_hms (e_duration scenario_item) = Inr ''?''"
  by (simp add: text_eval scenario_item_def)

lemma scenario_make:
  "make_cand True i scenario_collection = Inr (collection_cand i)"
  "make_cand True i scenario_item = Inr (item_cand i)"
  by (simp_all add: make_cand_def dur_of_def scenario_scores scenario_urls scenario_metrics
      scenario_durs normalize_url_def startswith_def collection_cand_def item_cand_def)

lemma scenario_ranked:
  "map_sum id (map c_entry) (ranked_cands False True [Some scenario_collection, Some scenario_item])
     = Inr [scenario_collection, scenario_item]"
  "map_sum id (map c_entry) (ranked_cands False True [Some scenario_item, Some scenario_collection])
     = Inr [scenario_collection, scenario_item]"
  by (simp_all add: ranked_cands_def sort_cands_def scenario_live scenario_make
      less_eq_prod_def collection_cand_def item_cand_def)

lemma scenario_ranked_full:
  "ranked_cands False True [Some scenario_collection, Some scenario_item] =
     Inr [collection_cand 1, item_cand 2]"
  by (simp add: ranked_cands_def sort_cands_def scenario_live scenario_make
      less_eq_prod_def collection_cand_def item_cand_def)

lemma scenario_session:
  assumes "poll_wait tot (qsizes (''ytsearch20:'' @ scenario_term)) 0 \<noteq> None"
  shows "search_session tot scenario_provider qsizes scenario_term =
           ([''ytsearch20:'' @ scenario_term],
            Returns ''https://www.youtube.com/playlist?list=PL1'')"
proof -
  from assms obtain k where "poll_wait tot (qsizes (''ytsearch20:'' @ scenario_term)) 0 = Some k"
    by auto
  then show ?thesis
    by (simp add: search_session_def queries_of_def scenario_boost scenario_provider_def
        entries_or_nil_def scenario_ranked_full collection_cand_def)
qed

text \<open>
  C1, as the spec states it, fails: the item's title does not contain \<^verbatim>\<open>official\<close>, so
  its score is 20 + 300 + 400 - 100 = 620 and not 670.
\<close>

theorem scenario_item_score_counterexample:
  "\<not> (fst (score_entry scenario_collection (boost_full_of scenario_term)) = 762
      \<and> fst (score_entry scenario_item (boost_full_of scenario_term)) = 670)"
  by (simp add: scenario_boost scenario_scores)

text \<open>
  C1 (amended): in the end-to-end scenario the scorer gives the collection 762 and the
  item 620, and the ranking of the search session puts the collection first, in either
  order of the provider's answer, so the collection is the record selected: whenever
  the wait for the worker ends, the session has issued the one query and returns the
  collection's locator.
\<close>

theorem scenario_scores_and_selection:
  "score_entry scenario_collection (boost_full_of scenario_term) = (762, Playlist)
   \<and> score_entry scenario_item (boost_full_of scenario_term) = (620, Video)
   \<and> map_sum id (map c_entry)
        (ranked_cands (want_live_of scenario_term) (boost_full_of scenario_term)
           [Some scenario_collection, Some scenario_item])
      = Inr [scenario_collection, scenario_item]
   \<and> map_sum id (map c_entry)
        (ranked_cands (want_live_of scenario_term) (boost_full_of scenario_term)
           [Some scenario_item, Some scenario_collection])
      = Inr [scenario_collection, scenario_item]
   \<and> (poll_wait tot (qsizes (''ytsearch20:'' @ scenario_term)) 0 \<noteq> None \<longrightarrow>
        search_session tot scenario_provider qsizes scenario_term =
          ([''ytsearch20:'' @ scenario_term],
           Returns ''https://www.youtube.com/playlist?list=PL1''))"
  using scenario_session [of tot qsizes]
  by (simp add: scenario_boost scenario_scores scenario_ranked)

text \<open>The amended C1 for a wait that ends at its first poll.\<close>

theorem scenario_scores_and_selection_witness:
  "poll_wait 1 (queue_ready (''ytsearch20:'' @ scenario_term)) 0 = Some 0
   \<and> score_entry scenario_collection (boost_full_of scenario_term) = (762, Playlist)
   \<and> score_entry scenario_item (boost_full_of scenario_term) = (620, Video)
   \<and> search_session 1 scenario_provider queue_ready scenario_term =
       ([''ytsearch20:'' @ scenario_term], Returns ''https://www.youtube.com/playlist?list=PL1'')"
proof -
  have p: "poll_wait 1 (queue_ready (''ytsearch20:'' @ scenario_term)) 0 = Some 0"
    by (rule poll_wait_ready)
  then have "poll_wait 1 (queue_ready (''ytsearch20:'' @ scenario_term)) 0 \<noteq> None"
    by (simp only: option.distinct not_False_eq_True)
  with scenario_scores_and_selection [where tot = 1 and qsizes = queue_ready] p
  show ?thesis by blast
qed

lemma kind_video: "snd (score_entry e bf) = Video \<longleftrightarrow> e_type e \<noteq> Some ''playlist''"
  by (simp add: score_entry_def Let_def)

lemma make_cand_fields: "make_cand bf idx e = Inr c \<Longrightarrow> c_idx c = idx \<and> c_entry c = e"
  by (auto simp: make_cand_def split: field.splits sum.splits)

lemma make_cand_error:
  "make_cand bf idx e = Inl x \<Longrightarrow>
     e_url e = Absent \<or> e_url e = Null
     \<or> (e_type e \<noteq> Some ''playlist'' \<and> sec_to_hms (e_duration e) = Inl x)"
  using kind_video [of e bf]
  by (auto simp: make_cand_def dur_of_def split: field.splits sum.splits kind.splits)

text \<open>The durations \<^verbatim>\<open>sec_to_hms\<close> raises on.\<close>

lemma sec_to_hms_raises:
  "(\<exists>x. sec_to_hms d = Inl x) \<longleftrightarrow>
     (\<exists>ty. d = OtherValue ty)
     \<or> (\<exists>n. d = Seconds n \<and> (n div 86400 < - 999999999 \<or> 999999999 < n div 86400))"
  by (cases d) (auto simp: sec_to_hms_def timedelta_seconds_def Let_def)

lemma build_cands_live:
  "build_cands wl bf idx es = Inr cs \<Longrightarrow> \<forall>c\<in>set cs. wl \<or> \<not> has_live (c_entry c)"
proof (induction wl bf idx es arbitrary: cs rule: build_cands.induct)
  case (1 wl bf idx)
  then show ?case by simp
next
  case (2 wl bf idx es)
  then show ?case by simp
next
  case (3 wl bf idx e es)
  then show ?case
    by (auto split: if_splits sum.splits dest: make_cand_fields)
qed

lemma build_cands_keeps:
  "build_cands wl bf idx es = Inr cs \<Longrightarrow> i < length es \<Longrightarrow> es ! i = Some e
     \<Longrightarrow> wl \<or> \<not> has_live e \<Longrightarrow> \<exists>c\<in>set cs. c_idx c = idx + i \<and> c_entry c = e"
proof (induction wl bf idx es arbitrary: cs i rule: build_cands.induct)
  case (1 wl bf idx)
  then show ?case by simp
next
  case (2 wl bf idx es)
  then show ?case by (cases i) auto
next
  case (3 wl bf idx e' es)
  show ?case
  proof (cases i)
    case 0
    with 3(3-) show ?thesis
      by (auto split: if_splits sum.splits dest: make_cand_fields)
  next
    case (Suc j)
    with 3 show ?thesis
      by (fastforce split: if_splits sum.splits)
  qed
qed

lemma build_cands_error:
  "build_cands wl bf idx es = Inl x \<Longrightarrow>
     \<exists>e. Some e \<in> set es \<and> (wl \<or> \<not> has_live e)
        \<and> (e_url e = Absent \<or> e_url e = Null
           \<or> (e_type e \<noteq> Some ''playlist'' \<and> sec_to_hms (e_duration e) = Inl x))"
proof (induction wl bf idx es rule: build_cands.induct)
  case (1 wl bf idx)
  then show ?case by simp
next
  case (2 wl bf idx es)
  then show ?case by auto
next
  case (3 wl bf idx e es)
  show ?case
  proof (cases "\<not> wl \<and> has_live e")
    case True
    with 3 show ?thesis by auto
  next
    case False
    show ?thesis
    proof (cases "make_cand bf idx e")
      case (Inl y)
      with False 3(3) have "y = x" by (auto split: if_splits)
      with Inl make_cand_error [of bf idx e x] False show ?thesis by auto
    next
      case (Inr c)
      with False 3(3) have "build_cands wl bf (Suc idx) es = Inl x"
        by (auto split: if_splits sum.splits)
      from 3(2) [OF False Inr this] show ?thesis by auto
    qed
  qed
qed

lemma set_sort_cands: "set (sort_cands cs) = set cs"
  by (simp add: sort_cands_def)

text \<open>
  C6: when the lower-cased term does not contain \<^verbatim>\<open>live\<close>, no candidate has
  \<^verbatim>\<open>live\<close> in its lower-cased title, whatever its score; when the term contains it,
  every record of the answer is a candidate, at its position. The candidate list is
  not built, and the search raises, only when a record that passes the filter has no
  usable \<^verbatim>\<open>url\<close> or is a video whose duration \<^verbatim>\<open>sec_to_hms\<close> raises on; the
  exception is then that of \<^verbatim>\<open>sec_to_hms\<close>, or the one of the \<^verbatim>\<open>url\<close> read.
\<close>

theorem live_filter:
  "case ranked_cands (want_live_of tm) (boost_full_of tm) es of
     Inr cs \<Rightarrow>
       (\<not> contains (lower tm) ''live'' \<longrightarrow> (\<forall>c\<in>set cs. \<not> has_live (c_entry c)))
       \<and> (contains (lower tm) ''live'' \<longrightarrow>
            (\<forall>i<length es. \<forall>e. es ! i = Some e \<longrightarrow>
               (\<exists>c\<in>set cs. c_idx c = Suc i \<and> c_entry c = e)))
   | Inl x \<Rightarrow>
       (\<exists>e. Some e \<in> set es \<and> (contains (lower tm) ''live'' \<or> \<not> has_live e)
            \<and> (e_url e = Absent \<or> e_url e = Null
               \<or> (e_type e \<noteq> Some ''playlist'' \<and> sec_to_hms (e_duration e) = Inl x)))"
proof (cases "build_cands (want_live_of tm) (boost_full_of tm) 1 es")
  case (Inl x)
  then show ?thesis
    unfolding ranked_cands_def Inl using build_cands_error [OF Inl]
    by (simp add: want_live_of_def)
next
  case (Inr cs)
  have a: "\<forall>c\<in>set cs. want_live_of tm \<or> \<not> has_live (c_entry c)"
    using build_cands_live [OF Inr] .
  have b: "want_live_of tm \<Longrightarrow> i < length es \<Longrightarrow> es ! i = Some e
      \<Longrightarrow> \<exists>c\<in>set cs. c_idx c = Suc i \<and> c_entry c = e" for i e
    using build_cands_keeps [OF Inr, of i e] by simp
  have wl: "want_live_of tm = contains (lower tm) ''live''"
    by (simp add: want_live_of_def)
  show ?thesis
    unfolding ranked_cands_def Inr using a b by (auto simp: set_sort_cands wl)
qed

text \<open>
  C6 at a concert recording of score 9000 and a studio recording of score 0: the term
  \<^verbatim>\<open>band\<close> keeps the studio recording only, the term \<^verbatim>\<open>band live\<close> keeps both;
  and at a record whose duration is a string, where the search raises.
\<close>

theorem live_filter_witness:
  "has_live concert_entry
   \<and> map_sum id (map c_entry)
        (ranked_cands (want_live_of ''band'') (boost_full_of ''band'')
           [Some concert_entry, Some studio_entry]) = Inr [studio_entry]
   \<and> map_sum id (map c_entry)
        (ranked_cands (want_live_of ''band live'') (boost_full_of ''band live'')
           [Some concert_entry, Some studio_entry]) = Inr [concert_entry, studio_entry]
   \<and> ranked_cands (want_live_of ''band live'') (boost_full_of ''band live'') [Some odd_entry] =
       Inl (Exn TypeError ''unsupported type for timedelta seconds component: str'')"
  using live_filter [where tm = "''band''" and es = "[Some concert_entry, Some studio_entry]"]
    live_filter [where tm = "''band live''" and es = "[Some concert_entry, Some studio_entry]"]
    live_filter [where tm = "''band live''" and es = "[Some odd_entry]"]
  by (simp add: studio_flags studio_ranked studio_live concert_cand_def studio_cand_def)

section \<open>Properties of the collection expander\<close>

lemma member_urls_all_falsy: "\<forall>e\<in>set es. e = None \<Longrightarrow> member_urls es = Inr []"
  by (induction es) auto

text \<open>
  C5, as the spec states it, fails: for a playlist whose members are all empty the
  expander returns the empty list; the program has no error for an empty collection.
\<close>

theorem empty_collection_counterexample:
  "get_video_list empty_extract ''PLx'' = Inr ([], True, ''Mix'')"
  by (simp add: get_video_list_def empty_extract_def empty_playlist_def or_default_def)

text \<open>
  C5 (amended): for every locator whose descriptor is a playlist with zero resolvable
  members (no \<^verbatim>\<open>entries\<close> key, or falsy entries only), the expander returns the empty
  item list, marked as a collection, with the playlist's title or \<^verbatim>\<open>"playlist"\<close>.
\<close>

theorem empty_collection_returns_empty:
  assumes "info_of url = Inr (Some d)"
    and "i_type d = Some ''playlist''"
    and "i_entries d = Absent \<or> (\<exists>es. i_entries d = Val es \<and> (\<forall>e\<in>set es. e = None))"
  shows "get_video_list info_of url = Inr ([], True, or_default (i_title d) ''playlist'')"
  using assms by (auto simp: get_video_list_def member_urls_all_falsy)

text \<open>The amended C5 at a playlist of two empty members.\<close>

theorem empty_collection_returns_empty_witness:
  "empty_extract ''PLx'' = Inr (Some empty_playlist)
   \<and> i_type empty_playlist = Some ''playlist''
   \<and> i_entries empty_playlist = Val [None, None]
   \<and> get_video_list empty_extract ''PLx'' = Inr ([], True, ''Mix'')"
proof -
  have a: "empty_extract ''PLx'' = Inr (Some empty_playlist)" by (simp add: empty_extract_def)
  have b: "i_type empty_playlist = Some ''playlist''" by (simp add: empty_playlist_def)
  have c: "i_entries empty_playlist = Val [None, None]" by (simp add: empty_playlist_def)
  have d: "i_entries empty_playlist = Absent
      \<or> (\<exists>es. i_entries empty_playlist = Val es \<and> (\<forall>e\<in>set es. e = None))"
    by (simp add: c)
  have e: "or_default (i_title empty_playlist) ''playlist'' = ''Mix''"
    by (simp add: empty_playlist_def or_default_def)
  show ?thesis
    using empty_collection_returns_empty
        [where info_of = empty_extract and url = "''PLx''" and d = empty_playlist, OF a b d]
      a b c e
    by simp
qed

section \<open>Properties of the fetch orchestrator\<close>

text \<open>
  Every downloader \<^verbatim>\<open>download_list\<close> builds has \<^verbatim>\<open>ignoreerrors\<close> set, so a failed
  download does not raise: the \<^verbatim>\<open>try\<close> body raises only what escapes from the
  downloader.
\<close>

lemma build_ydl_opts_ignoreerrors: "o_ignoreerrors (build_ydl_opts fmt outtmpl embed_thumb) = True"
  by (simp add: build_ydl_opts_def Let_def)

lemma fetch_item_cases:
  "fetch_item world fmt outdir is_playlist embed_thumb i url =
     (case world i url of
        Downloads \<Rightarrow> Fetched
      | DownloadFails reason \<Rightarrow> Fetched
      | Escapes x \<Rightarrow> Failed x)"
  by (simp add: fetch_item_def ydl_download_def item_opts_def build_ydl_opts_ignoreerrors
      split: item_outcome.splits)

lemma download_failures_Cons:
  "download_failures fetch i (url # urls) =
     (case fetch i url of
        Fetched \<Rightarrow> []
      | Failed (Exn cls msg) \<Rightarrow> if cls = DownloadError then [(url, msg)] else [])
     @ download_failures fetch (Suc i) urls"
  by (simp add: download_failures_def enumerate_simps)

lemma download_loop_isolated:
  "\<forall>j<length urls.
      \<not> raises_other (fetch_item world fmt outdir is_playlist embed_thumb (i + j) (urls ! j)) \<Longrightarrow>
     download_loop world fmt outdir is_playlist embed_thumb i urls r =
       r\<lparr>attempted := attempted r @ urls,
         fails := fails r
           @ download_failures (fetch_item world fmt outdir is_playlist embed_thumb) i urls\<rparr>"
proof (induction urls arbitrary: i r)
  case Nil
  then show ?case by (simp add: download_failures_def)
next
  case (Cons url urls)
  let ?fetch = "fetch_item world fmt outdir is_playlist embed_thumb"
  have hd: "\<not> raises_other (?fetch i url)"
    using Cons.prems by force
  have tl: "\<forall>j<length urls. \<not> raises_other (?fetch (Suc i + j) (urls ! j))"
    using Cons.prems by force
  show ?case
  proof (cases "?fetch i url")
    case Fetched
    then show ?thesis
      using Cons.IH [OF tl] by (simp add: download_failures_Cons)
  next
    case (Failed x)
    obtain cls msg where x: "x = Exn cls msg" by (cases x)
    with hd Failed have "cls = DownloadError" by (simp add: raises_other_def)
    with Failed x show ?thesis
      using Cons.IH [OF tl] by (simp add: download_failures_Cons)
  qed
qed

lemma download_failures_none:
  "\<forall>j<length urls. \<forall>x. world (i + j) (urls ! j) \<noteq> Escapes x \<Longrightarrow>
     download_failures (fetch_item world fmt outdir is_playlist embed_thumb) i urls = []"
proof (induction urls arbitrary: i)
  case Nil
  then show ?case by (simp add: download_failures_def)
next
  case (Cons url urls)
  have hd: "\<forall>x. world i url \<noteq> Escapes x"
    using Cons.prems by force
  have tl: "\<forall>j<length urls. \<forall>x. world (Suc i + j) (urls ! j) \<noteq> Escapes x"
    using Cons.prems by force
  from hd have "fetch_item world fmt outdir is_playlist embed_thumb i url = Fetched"
    by (simp add: fetch_item_cases split: item_outcome.splits)
  then show ?case
    using Cons.IH [OF tl] by (simp add: download_failures_Cons)
qed

text \<open>
  Whatever downloads fail, as long as no exception escapes from the downloader, every
  item is attempted, the run returns, and the list of failures stays empty.
\<close>

lemma failed_downloads_never_recorded:
  assumes "makedirs outdir = None"
    and "\<forall>j<length urls. \<forall>x. world (Suc j) (urls ! j) \<noteq> Escapes x"
  shows "download_list makedirs world urls fmt outdir is_playlist embed_thumb =
           \<lparr>attempted = urls, fails = [], raised = None\<rparr>"
proof -
  have a: "\<forall>j<length urls.
      \<not> raises_other (fetch_item world fmt outdir is_playlist embed_thumb (1 + j) (urls ! j))"
    using assms(2) by (auto simp: raises_other_def fetch_item_cases split: item_outcome.splits)
  have b: "download_failures (fetch_item world fmt outdir is_playlist embed_thumb) 1 urls = []"
    using assms(2) download_failures_none [of urls world 1] by simp
  show ?thesis
    using assms(1) download_loop_isolated [OF a] b by (simp add: download_list_def)
qed

text \<open>
  C2: the claim is that a fetch failure on one item is recorded as a pair of locator and
  reason while the other items are still attempted. The program attempts all five items
  and returns without raising, but it records nothing for the third item, whose
  download fails: \<^verbatim>\<open>build_ydl_opts\<close> sets \<^verbatim>\<open>ignoreerrors\<close>, so the downloader returns
  instead of raising \<^verbatim>\<open>DownloadError\<close>, the handler that appends to \<^verbatim>\<open>fails\<close> is not
  reached, and the return code of the download is not read.
\<close>

theorem failed_fetch_not_recorded:
  "download_list makedirs_ok third_fails [''u1'', ''u2'', ''u3'', ''u4'', ''u5''] ''mp3'' ''out''
       True False =
     \<lparr>attempted = [''u1'', ''u2'', ''u3'', ''u4'', ''u5''], fails = [], raised = None\<rparr>
   \<and> third_fails 3 ''u3'' = DownloadFails ''geo-blocked''"
proof -
  have a: "makedirs_ok ''out'' = None" by (simp add: makedirs_ok_def)
  have b: "\<forall>j<length [''u1'', ''u2'', ''u3'', ''u4'', ''u5''].
      \<forall>x. third_fails (Suc j) ([''u1'', ''u2'', ''u3'', ''u4'', ''u5''] ! j) \<noteq> Escapes x"
    by (simp add: third_fails_def)
  have c: "third_fails 3 ''u3'' = DownloadFails ''geo-blocked''" by (simp add: third_fails_def)
  from failed_downloads_never_recorded
         [where makedirs = makedirs_ok and world = third_fails, OF a b] c
  show ?thesis by simp
qed

lemma download_loop_propagates:
  "n < length urls
     \<Longrightarrow> fetch_item world fmt outdir is_playlist embed_thumb (i + n) (urls ! n)
           = Failed (Exn cls msg)
     \<Longrightarrow> cls \<noteq> DownloadError
     \<Longrightarrow> \<forall>j<n. \<not> raises_other
                  (fetch_item world fmt outdir is_playlist embed_thumb (i + j) (urls ! j))
     \<Longrightarrow> download_loop world fmt outdir is_playlist embed_thumb i urls r =
           r\<lparr>attempted := attempted r @ take (Suc n) urls,
             fails := fails r
               @ download_failures (fetch_item world fmt outdir is_playlist embed_thumb) i
                   (take n urls),
             raised := Some (Exn cls msg)\<rparr>"
proof (induction urls arbitrary: i n r)
  case Nil
  then show ?case by simp
next
  case (Cons url urls)
  let ?fetch = "fetch_item world fmt outdir is_playlist embed_thumb"
  show ?case
  proof (cases n)
    case 0
    with Cons.prems show ?thesis by (simp add: download_failures_def)
  next
    case (Suc m)
    have hd: "\<not> raises_other (?fetch i url)"
      using Cons.prems(4) Suc by force
    have m: "m < length urls" using Cons.prems(1) Suc by simp
    have f: "?fetch (Suc i + m) (urls ! m) = Failed (Exn cls msg)"
      using Cons.prems(2) Suc by simp
    have tl: "\<forall>j<m. \<not> raises_other (?fetch (Suc i + j) (urls ! j))"
      using Cons.prems(4) Suc by force
    note IH = Cons.IH [OF m f Cons.prems(3) tl]
    show ?thesis
    proof (cases "?fetch i url")
      case Fetched
      then show ?thesis using IH Suc by (simp add: download_failures_Cons)
    next
      case (Failed x)
      obtain c' m' where x: "x = Exn c' m'" by (cases x)
      with hd Failed have "c' = DownloadError" by (simp add: raises_other_def)
      with Failed x show ?thesis using IH Suc by (simp add: download_failures_Cons)
    qed
  qed
qed

text \<open>
  C10: when the fetch of an item raises an exception that is not a \<^verbatim>\<open>DownloadError\<close>
  (the items before it having completed or failed with \<^verbatim>\<open>DownloadError\<close>), that
  exception leaves \<^verbatim>\<open>download_list\<close>, and the items after it are not attempted.
\<close>

theorem other_exception_propagates:
  assumes "makedirs outdir = None"
    and "n < length urls"
    and "fetch_item world fmt outdir is_playlist embed_thumb (Suc n) (urls ! n)
           = Failed (Exn cls msg)"
    and "cls \<noteq> DownloadError"
    and "\<forall>j<n. \<not> raises_other
                 (fetch_item world fmt outdir is_playlist embed_thumb (Suc j) (urls ! j))"
  shows "download_list makedirs world urls fmt outdir is_playlist embed_thumb =
           \<lparr>attempted = take (Suc n) urls,
            fails = download_failures (fetch_item world fmt outdir is_playlist embed_thumb) 1
                      (take n urls),
            raised = Some (Exn cls msg)\<rparr>"
  using assms download_loop_propagates [of n urls world fmt outdir is_playlist embed_thumb 1 cls msg]
  by (simp add: download_list_def)

text \<open>C10 at five items of which the third raises an \<^verbatim>\<open>OSError\<close>.\<close>

theorem other_exception_propagates_witness:
  "makedirs_ok ''out'' = None
   \<and> fetch_item third_crashes ''mp4'' ''out'' True False 3 (five_items ! 2)
       = Failed (Exn OSError ''disk full'')
   \<and> download_list makedirs_ok third_crashes five_items ''mp4'' ''out'' True False =
       \<lparr>attempted = [''u1'', ''u2'', ''u3''], fails = [], raised = Some (Exn OSError ''disk full'')\<rparr>"
proof -
  let ?fetch = "fetch_item third_crashes ''mp4'' ''out'' True False"
  have a: "makedirs_ok ''out'' = None" by (simp add: makedirs_ok_def)
  have n: "2 < length five_items" by (simp add: five_items_def)
  have f: "?fetch (Suc 2) (five_items ! 2) = Failed (Exn OSError ''disk full'')"
    by (simp add: fetch_item_cases third_crashes_def)
  have c: "OSError \<noteq> DownloadError" by simp
  have p: "\<forall>j<2. \<not> raises_other (?fetch (Suc j) (five_items ! j))"
    by (simp add: fetch_item_cases third_crashes_def raises_other_def)
  have d: "download_failures ?fetch 1 (take 2 five_items) = []"
    by (simp add: download_failures_def five_items_def fetch_item_cases third_crashes_def
        enumerate_simps)
  have t: "take (Suc 2) five_items = [''u1'', ''u2'', ''u3'']"
    by (simp add: five_items_def)
  show ?thesis
    using other_exception_propagates
        [where makedirs = makedirs_ok and outdir = "''out''" and world = third_crashes
           and fmt = "''mp4''" and is_playlist = True and embed_thumb = False
           and urls = five_items and n = 2 and cls = OSError and msg = "''disk full''",
         OF a n f c p]
      a f d t
    by simp
qed

section \<open>Properties of the command line\<close>

lemma file_tasks_filter:
  "file_tasks ls = map classify (filter (\<lambda>l. l \<noteq> []) (map strip ls))"
  by (induction ls) simp_all

lemma list_file_lines:
  "map strip [''# favourites'' @ [CHR 0x0A], [CHR 0x0A], ''  http://a '' @ [CHR 0x0A],
              ''some song'' @ [CHR 0x0A]]
     = [''# favourites'', [], ''http://a'', ''some song'']"
  by code_simp

lemma list_file_classes:
  "startswith ''# favourites'' ''http'' = False"
  "startswith ''http://a'' ''http'' = True"
  "startswith ''some song'' ''http'' = False"
  by (simp_all add: startswith_def)

text \<open>
  C9, as the spec states it, fails: a line that starts with \<^verbatim>\<open>#\<close> is not ignored, it
  becomes a search task.
\<close>

theorem comment_line_counterexample:
  "(SearchTask, ''# favourites'') \<in> set (gather_tasks list_file from_file)"
proof -
  have "file_tasks [''# favourites'' @ [CHR 0x0A], [CHR 0x0A], ''  http://a '' @ [CHR 0x0A],
           ''some song'' @ [CHR 0x0A]] =
       [(SearchTask, ''# favourites''), (UrlTask, ''http://a''), (SearchTask, ''some song'')]"
    unfolding file_tasks_filter list_file_lines
    by (simp add: classify_def list_file_classes)
  then show ?thesis
    by (simp add: gather_tasks_def from_file_def list_file_def)
qed

text \<open>
  C9 (amended): when tasks are read from an input file, every line is stripped, every
  line that is then empty is ignored, every remaining line that starts with
  \<^verbatim>\<open>http\<close> becomes a direct-locator task and every other remaining line, a line
  starting with \<^verbatim>\<open>#\<close> included, becomes a search task, in file order.
\<close>

theorem file_lines_become_tasks:
  assumes "fs p = Some ls"
  shows "gather_tasks fs \<lparr>a_inputs = [p], a_search = None, a_format = fmt, a_output = out,
                          a_thumbnail = th, a_help = h\<rparr> =
           map (\<lambda>l. (if startswith l ''http'' then UrlTask else SearchTask, l))
             (filter (\<lambda>l. l \<noteq> []) (map strip ls))"
proof -
  have "classify = (\<lambda>l. (if startswith l ''http'' then UrlTask else SearchTask, l))"
    by (rule ext) (simp add: classify_def)
  then show ?thesis
    using assms by (simp add: gather_tasks_def file_tasks_filter)
qed

text \<open>The amended C9 at a file of four lines.\<close>

theorem file_lines_become_tasks_witness:
  "list_file ''list.txt'' =
     Some [''# favourites'' @ [CHR 0x0A], [CHR 0x0A], ''  http://a '' @ [CHR 0x0A],
           ''some song'' @ [CHR 0x0A]]
   \<and> gather_tasks list_file from_file =
       [(SearchTask, ''# favourites''), (UrlTask, ''http://a''), (SearchTask, ''some song'')]"
proof -
  have a: "list_file ''list.txt'' =
     Some [''# favourites'' @ [CHR 0x0A], [CHR 0x0A], ''  http://a '' @ [CHR 0x0A],
           ''some song'' @ [CHR 0x0A]]"
    by (simp add: list_file_def)
  show ?thesis
    using file_lines_become_tasks [where fs = list_file and p = "''list.txt''"
        and fmt = "''mp4''" and out = None and th = False and h = False, OF a] a
    unfolding list_file_lines from_file_def
    by (simp add: list_file_classes)
qed

lemma task_errors_Cons:
  "task_errors envs a n (t # ts) =
     (case run_task (envs n) a t of Raises x \<Rightarrow> [(snd t, x)] | _ \<Rightarrow> [])
     @ task_errors envs a (Suc n) ts"
  by (simp add: task_errors_def enumerate_simps)

lemma run_tasks_all:
  "\<forall>i<length ts. run_task (envs (n + i)) a (ts ! i) \<noteq> Hangs \<Longrightarrow>
     run_tasks envs a n ts r =
       r\<lparr>exit_code := Some 0, started := started r @ ts,
         errors := errors r @ task_errors envs a n ts\<rparr>"
proof (induction ts arbitrary: n r)
  case Nil
  then show ?case by (simp add: task_errors_def)
next
  case (Cons t ts)
  have hd: "run_task (envs n) a t \<noteq> Hangs"
    using Cons.prems by force
  have tl: "\<forall>i<length ts. run_task (envs (Suc n + i)) a (ts ! i) \<noteq> Hangs"
    using Cons.prems by force
  show ?case
    using hd Cons.IH [OF tl]
    by (cases "run_task (envs n) a t") (simp_all add: task_errors_Cons)
qed

lemma gather_tasks_nonempty:
  "gather_tasks fs a \<noteq> [] \<Longrightarrow> \<not> (a_inputs a = [] \<and> \<not> truthy (a_search a))"
  by (auto simp: gather_tasks_def truthy_def split: option.splits if_splits)

lemma two_urls_tasks:
  "gather_tasks no_files two_urls = [(UrlTask, ''http://a''), (UrlTask, ''http://b'')]"
  by (simp add: gather_tasks_def two_urls_def no_files_def classify_def startswith_def)

lemma broken_runs:
  "run_task (broken_env i) two_urls (UrlTask, ''http://a'') =
     Raises (Exn DownloadError ''unavailable'')"
  "run_task (broken_env i) two_urls (UrlTask, ''http://b'') = Returns ()"
  by (simp_all add: run_task_def resolve_url_def broken_env_def broken_extract_def
      get_video_list_def or_default_def outdir_of_def two_urls_def download_list_def
      makedirs_ok_def fetch_item_cases)

text \<open>
  C8, as the spec states it, fails: a run in which a task raised ends with the exit
  code 0, the code of a run in which every task succeeded.
\<close>

theorem failed_task_exit_code_counterexample:
  "cli no_files broken_env two_urls =
     \<lparr>exit_code = Some 0,
      started = [(UrlTask, ''http://a''), (UrlTask, ''http://b'')],
      errors = [(''http://a'', Exn DownloadError ''unavailable'')]\<rparr>"
  by (simp add: cli_def two_urls_tasks broken_runs) (simp add: two_urls_def truthy_def)

text \<open>
  C8 (amended): for every non-empty sequence of tasks none of which hangs, the run
  starts every task in order, prints one error for each task that raised and goes on
  with the next one, and ends with the exit code 0 whether or not a task raised.
\<close>

theorem cli_exit_code:
  assumes "\<not> a_help a"
    and "gather_tasks fs a \<noteq> []"
    and "\<forall>i<length (gather_tasks fs a). run_task (envs i) a (gather_tasks fs a ! i) \<noteq> Hangs"
  shows "cli fs envs a =
           \<lparr>exit_code = Some 0, started = gather_tasks fs a,
            errors = task_errors envs a 0 (gather_tasks fs a)\<rparr>"
  using assms gather_tasks_nonempty [OF assms(2)]
    run_tasks_all [of "gather_tasks fs a" envs 0 a]
  by (simp add: cli_def)

text \<open>The amended C8 at two locators of which the first cannot be resolved.\<close>

theorem cli_exit_code_witness:
  "\<not> a_help two_urls
   \<and> gather_tasks no_files two_urls = [(UrlTask, ''http://a''), (UrlTask, ''http://b'')]
   \<and> exit_code (cli no_files broken_env two_urls) = Some 0
   \<and> errors (cli no_files broken_env two_urls) =
       [(''http://a'', Exn DownloadError ''unavailable'')]"
proof -
  have a: "\<not> a_help two_urls" by (simp add: two_urls_def)
  have b: "gather_tasks no_files two_urls \<noteq> []" by (simp add: two_urls_tasks)
  have c: "\<forall>i<length (gather_tasks no_files two_urls).
      run_task (broken_env i) two_urls (gather_tasks no_files two_urls ! i) \<noteq> Hangs"
    by (simp add: two_urls_tasks broken_runs nth_Cons split: nat.splits)
  have d: "task_errors broken_env two_urls 0 (gather_tasks no_files two_urls) =
      [(''http://a'', Exn DownloadError ''unavailable'')]"
    by (simp add: two_urls_tasks task_errors_Cons broken_runs task_errors_def)
  show ?thesis
    using cli_exit_code [where a = two_urls and fs = no_files and envs = broken_env, OF a b c]
      a d
    by (simp add: two_urls_tasks)
qed

end
